theory Spec2Isabelle
  imports Complex_Main
begin

section \<open>HQC-DDI prototype: data governance and the hybrid VQE orchestrator\<close>

text \<open>
  A shallow embedding of \<^verbatim>\<open>hqc_ddi_vqe_prototype.py\<close>. Python integers are \<open>int\<close>,
  Python floats are \<open>real\<close> (a float that may be \<open>nan\<close> is a \<open>pyfloat\<close>), strings are
  \<open>string\<close>, dictionaries are maps or records with optional fields, exceptions are values
  of \<open>py_error\<close>. Console output (\<^verbatim>\<open>print\<close>) is not modelled.

  Three things the source calls live outside the repository and are parameters of the
  model:
  \<^item> the clock: a function that reads \<^verbatim>\<open>datetime.now().isoformat()\<close> takes the
    timestamp \<open>ts\<close> as an argument;
  \<^item> numpy's state: a value of type \<open>np_state\<close>, threaded through every function that
    draws or allocates. It holds the sequence of numbers the global random generator is
    still going to produce, and the number of float64 elements of the largest array the
    machine can allocate;
  \<^item> scipy's \<^verbatim>\<open>minimize\<close>: a function that, from the start vector and the iteration
    cap, gives an \<open>optimizer\<close>, the strategy by which the routine calls the cost function.
\<close>

subsection \<open>Errors, floats and the random generator\<close>

datatype py_error = TypeError | ValueError | MemoryError

datatype pyfloat = Value real | NaN

record np_state =
  draws :: "nat \<Rightarrow> real"
  capacity :: nat

text \<open>\<^verbatim>\<open>np.random.random()\<close>: the next number, and the state after it.\<close>

definition random :: "np_state \<Rightarrow> real \<times> np_state" where
  "random g = (draws g 0, g\<lparr>draws := \<lambda>i. draws g (Suc i)\<rparr>)"

text \<open>A flat array of \<open>n\<close> successive draws.\<close>

definition random_sample :: "nat \<Rightarrow> np_state \<Rightarrow> real list \<times> np_state" where
  "random_sample n g = (map (draws g) [0..<n], g\<lparr>draws := \<lambda>i. draws g (i + n)\<rparr>)"

text \<open>
  A Python number as it reaches numpy's \<open>size\<close> argument: \<^verbatim>\<open>2**n\<close> is an \<open>int\<close> for
  \<open>n \<ge> 0\<close> and a \<open>float\<close> for a negative \<open>n\<close>.
\<close>

datatype py_number = PyInt int | PyFloat real

definition py_pow2 :: "int \<Rightarrow> py_number" where
  "py_pow2 n = (if 0 \<le> n then PyInt (2 ^ nat n) else PyFloat (1 / 2 ^ nat (- n)))"

text \<open>
  \<^verbatim>\<open>np.random.random(n)\<close> for an integer \<open>n\<close>. numpy allocates the array before it draws,
  and every failure leaves the generator as it was:
  \<^item> \<^verbatim>\<open>ValueError\<close> on a negative dimension;
  \<^item> \<^verbatim>\<open>ValueError\<close> when the dimension, or the size of the array in bytes (8 for each
    float64 element), does not fit numpy's signed 64-bit size type;
  \<^item> \<^verbatim>\<open>MemoryError\<close> when the machine cannot allocate that many elements.
  \<open>n = 0\<close> gives the empty array.
\<close>

definition np_random_random :: "int \<Rightarrow> np_state \<Rightarrow> py_error + (real list \<times> np_state)" where
  "np_random_random n g =
     (if n < 0 then Inl ValueError
      else if 2 ^ 63 \<le> n \<or> 2 ^ 63 \<le> 8 * n then Inl ValueError
      else if capacity g < nat n then Inl MemoryError
      else Inr (random_sample (nat n) g))"

text \<open>
  \<^verbatim>\<open>np.random.random((r, c))\<close>: a float dimension is a \<^verbatim>\<open>TypeError\<close>; for integer
  dimensions the same three failures as above, the size being that of all \<open>r * c\<close>
  elements; otherwise an \<open>r\<close> by \<open>c\<close> array filled row by row.
\<close>

definition random_matrix :: "nat \<Rightarrow> nat \<Rightarrow> np_state \<Rightarrow> real list list \<times> np_state" where
  "random_matrix r c g =
     (map (\<lambda>i. map (draws g) [i * c..<i * c + c]) [0..<r],
      g\<lparr>draws := \<lambda>i. draws g (i + r * c)\<rparr>)"

fun np_random_random2 ::
  "py_number \<Rightarrow> py_number \<Rightarrow> np_state \<Rightarrow> py_error + (real list list \<times> np_state)" where
  "np_random_random2 (PyInt r) (PyInt c) g =
     (if r < 0 \<or> c < 0 then Inl ValueError
      else if 2 ^ 63 \<le> r \<or> 2 ^ 63 \<le> c \<or> 2 ^ 63 \<le> 8 * (r * c) then Inl ValueError
      else if capacity g < nat (r * c) then Inl MemoryError
      else Inr (random_matrix (nat r) (nat c) g))"
| "np_random_random2 _ _ g = Inl TypeError"

text \<open>\<^verbatim>\<open>np.mean\<close> of a list of floats: \<open>nan\<close> (with a warning, no exception) when empty.\<close>

definition np_mean :: "real list \<Rightarrow> pyfloat" where
  "np_mean xs = (if xs = [] then NaN else Value (sum_list xs / real (length xs)))"

text \<open>\<^verbatim>\<open>d.get(key, default)\<close> on an optional field.\<close>

definition get_default :: "'a option \<Rightarrow> 'a \<Rightarrow> 'a" where
  "get_default v d = (case v of None \<Rightarrow> d | Some x \<Rightarrow> x)"

subsection \<open>DP2: DataGovernanceManager\<close>


record metadata =
  dataset_id :: string
  created_timestamp :: string
  data_owner :: string
  purpose :: string
  classification :: string
  data_type :: string
  provenance :: "string list"
  policies :: "string list"
  quality_score :: pyfloat
  quality_metrics :: "(string \<times> real) list option"

record log_entry =
  timestamp :: string
  event_type :: string
  user :: string
  details :: string

record governance =
  metadata_store :: "string \<rightharpoonup> metadata"
  audit_log :: "log_entry list"

definition init_governance :: governance where
  "init_governance = \<lparr>metadata_store = Map.empty, audit_log = []\<rparr>"

text \<open>The method \<^verbatim>\<open>_audit_log\<close>, with the timestamp it reads as \<open>ts\<close>.\<close>

definition audit_log_append :: "string \<Rightarrow> string \<Rightarrow> string \<Rightarrow> string \<Rightarrow> governance \<Rightarrow> governance" where
  "audit_log_append ts ev u d g =
     g\<lparr>audit_log := audit_log g @
        [\<lparr>timestamp = ts, event_type = ev, user = u, details = d\<rparr>]\<rparr>"

definition create_dataset_metadata ::
  "string \<Rightarrow> string \<Rightarrow> string \<Rightarrow> string \<Rightarrow> string \<Rightarrow> string \<Rightarrow> governance
     \<Rightarrow> metadata \<times> governance" where
  "create_dataset_metadata did owner purp cls ts ts' g =
     (let md = \<lparr>dataset_id = did, created_timestamp = ts, data_owner = owner,
                 purpose = purp, classification = cls,
                 data_type = ''quantum_classical_hybrid'', provenance = [],
                 policies = [], quality_score = Value 0, quality_metrics = None\<rparr>;
          g1 = g\<lparr>metadata_store := (metadata_store g)(did \<mapsto> md)\<rparr>
      in (md, audit_log_append ts' ''CREATE'' owner (''Created dataset '' @ did) g1))"


definition record_data_quality ::
  "string \<Rightarrow> (string \<times> real) list \<Rightarrow> governance \<Rightarrow> governance" where
  "record_data_quality did qm g =
     (case metadata_store g did of
        None \<Rightarrow> g
      | Some md \<Rightarrow>
          g\<lparr>metadata_store := (metadata_store g)
              (did \<mapsto> md\<lparr>quality_metrics := Some qm,
                          quality_score := np_mean (map snd qm)\<rparr>)\<rparr>)"

subsection \<open>DP1: HybridQuantumOrchestrator\<close>

record problem_config =
  n_qubits :: "int option"
  num_parameters :: "int option"
  ansatz_reps :: "int option"
  config_backend :: "string option"

record ansatz =
  ansatz_type :: string
  reps :: int
  entanglement :: string

record evaluation_record =
  iteration :: nat
  params :: "real list"
  energy :: real

record workflow_result =
  backend :: string
  problem :: problem_config
  optimal_params :: "real list"
  minimum_energy :: real
  iterations :: "evaluation_record list"
  success :: bool

record orchestrator =
  backend_type :: string
  execution_history :: "workflow_result list"

definition init_orchestrator :: "string \<Rightarrow> orchestrator" where
  "init_orchestrator b = \<lparr>backend_type = b, execution_history = []\<rparr>"

text \<open>
  What \<^verbatim>\<open>scipy.optimize.minimize\<close> hands back (\<open>x\<close>, \<open>fun\<close>, \<open>success\<close>), and the routine
  itself as a strategy: it returns a result, raises, or calls the cost function at a
  parameter vector and goes on from the value it gets. A strategy is a well-founded
  tree, so a run of it always ends.
\<close>

record opt_result =
  res_x :: "real list"
  res_fun :: real
  res_success :: bool

datatype optimizer =
  Return opt_result
| Raise py_error
| Call "real list" "real \<Rightarrow> optimizer"

primrec run_minimize ::
  "optimizer \<Rightarrow> (real list \<Rightarrow> 's \<Rightarrow> real \<times> 's) \<Rightarrow> 's \<Rightarrow> (py_error + opt_result) \<times> 's" where
  "run_minimize (Return r) = (\<lambda>f s. (Inr r, s))"
| "run_minimize (Raise e) = (\<lambda>f s. (Inl e, s))"
| "run_minimize (Call p k) =
     (\<lambda>f s. case f p s of (y, s') \<Rightarrow> run_minimize (k y) f s')"

definition construct_hamiltonian ::
  "problem_config \<Rightarrow> np_state \<Rightarrow> py_error + (real list list \<times> np_state)" where
  "construct_hamiltonian problem_config g =
     (let n = get_default (n_qubits problem_config) 2
      in np_random_random2 (py_pow2 n) (py_pow2 n) g)"

definition construct_ansatz :: "problem_config \<Rightarrow> ansatz" where
  "construct_ansatz problem_config =
     \<lparr>ansatz_type = ''two_local'',
      reps = get_default (ansatz_reps problem_config) 2,
      entanglement = ''full''\<rparr>"

definition quantum_evaluate ::
  "real list \<Rightarrow> real list list \<Rightarrow> ansatz \<Rightarrow> np_state \<Rightarrow> real \<times> np_state" where
  "quantum_evaluate ps hamiltonian a g =
     (case random g of (u, g') \<Rightarrow> (u - 1 / 2, g'))"

text \<open>
  The closure \<^verbatim>\<open>cost_function\<close>: its state is the captured list
  \<^verbatim>\<open>iteration_history\<close> and numpy's state.
\<close>

definition cost_function ::
  "real list list \<Rightarrow> ansatz \<Rightarrow> real list \<Rightarrow> evaluation_record list \<times> np_state
     \<Rightarrow> real \<times> (evaluation_record list \<times> np_state)" where
  "cost_function hamiltonian a ps s =
     (case s of (iteration_history, g) \<Rightarrow>
        (case quantum_evaluate ps hamiltonian a g of (e, g') \<Rightarrow>
           (e, (iteration_history @
                  [\<lparr>iteration = length iteration_history, params = ps, energy = e\<rparr>],
                g'))))"

definition execute_vqe_workflow ::
  "(real list \<Rightarrow> int \<Rightarrow> optimizer) \<Rightarrow> problem_config \<Rightarrow> int
     \<Rightarrow> orchestrator \<times> np_state
     \<Rightarrow> (py_error + workflow_result) \<times> orchestrator \<times> np_state" where
  "execute_vqe_workflow minimize problem_config max_iterations w =
     (case w of (orch, g) \<Rightarrow>
        (case construct_hamiltonian problem_config g of
           Inl e \<Rightarrow> (Inl e, orch, g)
         | Inr (hamiltonian, g1) \<Rightarrow>
             (let a = construct_ansatz problem_config in
              case np_random_random (get_default (num_parameters problem_config) 4) g1 of
                Inl e \<Rightarrow> (Inl e, orch, g1)
              | Inr (init_params, g2) \<Rightarrow>
                  (case run_minimize (minimize init_params max_iterations)
                          (cost_function hamiltonian a) ([], g2) of
                     (Inl e, (iteration_history, g3)) \<Rightarrow> (Inl e, orch, g3)
                   | (Inr result, (iteration_history, g3)) \<Rightarrow>
                       (let workflow_result =
                              \<lparr>backend = backend_type orch,
                               problem = problem_config,
                               optimal_params = res_x result,
                               minimum_energy = res_fun result,
                               iterations = iteration_history,
                               success = res_success result\<rparr>
                        in (Inr workflow_result,
                            orch\<lparr>execution_history :=
                                   execution_history orch @ [workflow_result]\<rparr>,
                            g3))))))"

datatype adapter = Qiskit_simulator | Aws_braket | Cuda_q

definition adapters :: "(string \<times> adapter) list" where
  "adapters =
     [(''qiskit_simulator'', Qiskit_simulator),
      (''braket'', Aws_braket),
      (''cuda_q'', Cuda_q)]"

definition get_backend_adapter :: "string \<Rightarrow> adapter" where
  "get_backend_adapter b = get_default (map_of adapters b) Qiskit_simulator"

text \<open>Calling an adapter gives the name of its backend.\<close>

fun call_adapter :: "adapter \<Rightarrow> string" where
  "call_adapter Qiskit_simulator = ''IBM Qiskit Simulator Backend''"
| "call_adapter Aws_braket = ''AWS Braket Backend''"
| "call_adapter Cuda_q = ''NVIDIA CUDA-Q Backend''"

subsection \<open>Properties of strategies and states used in the statements\<close>


text \<open>
  \<open>array_fits k g\<close>: numpy can allocate an array of \<open>k\<close> float64 elements in state \<open>g\<close>:
  its size in bytes fits the signed 64-bit size type and the machine has the memory.
\<close>

definition array_fits :: "nat \<Rightarrow> np_state \<Rightarrow> bool" where
  "array_fits k g = (8 * k < 2 ^ 63 \<and> k \<le> capacity g)"

subsection \<open>Example inputs\<close>

text \<open>
  The configuration of \<^verbatim>\<open>run_full_demo\<close> and variants of it; a numpy state whose draw
  number 20 is \<open>1/4\<close> and every other \<open>3/4\<close>, on a machine that can allocate arrays of
  up to \<open>2 ^ 30\<close> elements (8 GiB).
\<close>

definition demo_config :: problem_config where
  "demo_config = \<lparr>n_qubits = Some 2, num_parameters = Some 4, ansatz_reps = Some 2,
                   config_backend = Some ''qiskit_simulator''\<rparr>"




definition many_qubits_config :: "int \<Rightarrow> problem_config" where
  "many_qubits_config n = \<lparr>n_qubits = Some n, num_parameters = Some 4,
      ansatz_reps = Some 2, config_backend = None\<rparr>"

definition demo_numpy :: np_state where
  "demo_numpy = \<lparr>draws = (\<lambda>i. if i = 20 then 1 / 4 else 3 / 4), capacity = 2 ^ 30\<rparr>"

definition demo_world :: "orchestrator \<times> np_state" where
  "demo_world = (init_orchestrator ''qiskit_simulator'', demo_numpy)"


definition report_last :: "real list \<Rightarrow> int \<Rightarrow> optimizer" where
  "report_last x0 maxiter =
     Call x0 (\<lambda>y0. Call (map (\<lambda>v. v + 1) x0)
       (\<lambda>y1. Return \<lparr>res_x = map (\<lambda>v. v + 1) x0, res_fun = y1, res_success = False\<rparr>))"




section \<open>Properties\<close>

subsection \<open>Auxiliary facts\<close>

lemma random_matrix_shape:
  "length (fst (random_matrix r c g)) = r"
  "map length (fst (random_matrix r c g)) = replicate r c"
  by (simp_all add: random_matrix_def comp_def map_replicate_const)


text \<open>The operator for \<open>n\<close> qubits has \<open>4 ^ n\<close> elements; what numpy does with it.\<close>

lemma pow2_int_facts:
  fixes k :: nat
  shows "(2::int) ^ k * 2 ^ k = int (4 ^ k)"
    and "((2::int) ^ 63 \<le> 8 * int (4 ^ k)) = ((2::nat) ^ 63 \<le> 8 * 4 ^ k)"
    and "(2::int) ^ 63 \<le> 2 ^ k \<Longrightarrow> (2::nat) ^ 63 \<le> 8 * 4 ^ k"
proof -
  show "(2::int) ^ k * 2 ^ k = int (4 ^ k)"
    by (simp add: power_mult_distrib [symmetric])
  have "((2::int) ^ 63 \<le> 8 * int (4 ^ k)) = (int (2 ^ 63) \<le> int (8 * 4 ^ k))"
    by simp
  also have "\<dots> = ((2::nat) ^ 63 \<le> 8 * 4 ^ k)"
    by (rule of_nat_le_iff)
  finally show "((2::int) ^ 63 \<le> 8 * int (4 ^ k)) = ((2::nat) ^ 63 \<le> 8 * 4 ^ k)" .
  show "(2::nat) ^ 63 \<le> 8 * 4 ^ k" if h: "(2::int) ^ 63 \<le> 2 ^ k"
  proof -
    have "(1::int) < 2" by simp
    from power_le_imp_le_exp [OF this h] have "63 \<le> k" .
    then have "(2::nat) ^ 63 \<le> 2 ^ k"
      by (rule power_increasing) simp
    also have "(2::nat) ^ k \<le> 4 ^ k"
      by (rule power_mono) simp_all
    also have "(4::nat) ^ k \<le> 8 * 4 ^ k" by simp
    finally show ?thesis .
  qed
qed


lemma construct_hamiltonian_eq:
  "construct_hamiltonian cfg g =
     (if get_default (n_qubits cfg) 2 < 0 then Inl TypeError
      else if 2 ^ 63 \<le> 8 * (4::nat) ^ nat (get_default (n_qubits cfg) 2) then Inl ValueError
      else if capacity g < 4 ^ nat (get_default (n_qubits cfg) 2) then Inl MemoryError
      else Inr (random_matrix (2 ^ nat (get_default (n_qubits cfg) 2))
                  (2 ^ nat (get_default (n_qubits cfg) 2)) g))"
proof (cases "get_default (n_qubits cfg) 2 < 0")
  case True
  then show ?thesis
    by (simp add: construct_hamiltonian_def py_pow2_def Let_def)
next
  case False
  let ?k = "nat (get_default (n_qubits cfg) 2)"
  have A: "((2::int) ^ ?k < 0 \<or> (2::int) ^ ?k < 0) = False"
    by simp
  have B: "((2::int) ^ 63 \<le> 2 ^ ?k \<or> (2::int) ^ 63 \<le> 2 ^ ?k
              \<or> (2::int) ^ 63 \<le> 8 * (2 ^ ?k * 2 ^ ?k))
           = ((2::nat) ^ 63 \<le> 8 * 4 ^ ?k)"
    using pow2_int_facts(3) [of ?k] pow2_int_facts(2) [of ?k]
    by (auto simp only: pow2_int_facts(1))
  have C: "nat ((2::int) ^ ?k * 2 ^ ?k) = 4 ^ ?k"
    by (simp only: pow2_int_facts(1) nat_int)
  have D: "nat ((2::int) ^ ?k) = 2 ^ ?k"
    by (simp add: nat_power_eq)
  have "construct_hamiltonian cfg g = np_random_random2 (PyInt (2 ^ ?k)) (PyInt (2 ^ ?k)) g"
    using False by (simp add: construct_hamiltonian_def py_pow2_def Let_def)
  also have "\<dots> =
     (if 2 ^ 63 \<le> 8 * (4::nat) ^ ?k then Inl ValueError
      else if capacity g < 4 ^ ?k then Inl MemoryError
      else Inr (random_matrix (2 ^ ?k) (2 ^ ?k) g))"
    by (simp only: np_random_random2.simps A B C D if_False)
  finally show ?thesis using False by (simp only: if_False)
qed

lemma cost_function_appends:
  "cost_function h a ps (hist, g) =
     (draws g 0 - 1 / 2,
      hist @ [\<lparr>iteration = length hist, params = ps, energy = draws g 0 - 1 / 2\<rparr>],
      g\<lparr>draws := \<lambda>i. draws g (Suc i)\<rparr>)"
  by (simp add: cost_function_def quantum_evaluate_def random_def)

text \<open>
  A run of any strategy over the cost function only extends the history, and numbers the
  new records consecutively from the length it found.
\<close>

lemma run_history:
  "run_minimize t (cost_function h a) (hist, g) = (r, hist', g') \<Longrightarrow>
   \<exists>new. hist' = hist @ new \<and> map iteration new = [length hist..<length hist + length new]"
proof (induction t arbitrary: hist g)
  case (Return x)
  then show ?case by simp
next
  case (Raise x)
  then show ?case by simp
next
  case (Call p k)
  let ?rec = "\<lparr>iteration = length hist, params = p, energy = draws g 0 - 1 / 2\<rparr>"
  from Call.prems have
    "run_minimize (k (draws g 0 - 1 / 2)) (cost_function h a)
       (hist @ [?rec], g\<lparr>draws := \<lambda>i. draws g (Suc i)\<rparr>) = (r, hist', g')"
    by (simp add: cost_function_appends)
  from Call.IH[OF _ this] obtain new where
    n: "hist' = (hist @ [?rec]) @ new"
       "map iteration new = [length (hist @ [?rec])..<length (hist @ [?rec]) + length new]"
    by blast
  have "hist' = hist @ (?rec # new)" using n(1) by simp
  moreover have "map iteration (?rec # new) = [length hist..<length hist + length (?rec # new)]"
  proof -
    have "[length hist..<length hist + length (?rec # new)] =
            length hist # [Suc (length hist)..<length hist + length (?rec # new)]"
      by (rule upt_conv_Cons) simp
    with n(2) show ?thesis by (simp del: upt_Suc)
  qed
  ultimately show ?case by blast
qed


text \<open>What a successful workflow went through.\<close>

lemma execute_Inr:
  assumes "execute_vqe_workflow minimize cfg mi (orch, g) = (Inr wr, orch', g')"
  obtains h g1 x0 g2 r hist where
    "construct_hamiltonian cfg g = Inr (h, g1)"
    "np_random_random (get_default (num_parameters cfg) 4) g1 = Inr (x0, g2)"
    "run_minimize (minimize x0 mi) (cost_function h (construct_ansatz cfg)) ([], g2)
       = (Inr r, hist, g')"
    "wr = \<lparr>backend = backend_type orch, problem = cfg, optimal_params = res_x r,
           minimum_energy = res_fun r, iterations = hist, success = res_success r\<rparr>"
    "orch' = orch\<lparr>execution_history := execution_history orch @ [wr]\<rparr>"
  using assms
  by (auto simp: execute_vqe_workflow_def Let_def split: sum.splits prod.splits)

lemmas demo_simps = execute_vqe_workflow_def construct_hamiltonian_def construct_ansatz_def
  np_random_random_def random_sample_def random_matrix_def py_pow2_def get_default_def
  cost_function_appends demo_config_def demo_numpy_def init_orchestrator_def demo_world_def
  Let_def

subsection \<open>C2: invalid problem specifications\<close>




subsection \<open>C3: dimension of the operator\<close>

text \<open>
  C3: with \<open>n\<close> the qubit count (2 when the key is absent), every operator that
  \<open>construct_hamiltonian\<close> returns is a square matrix with \<open>2 ^ n\<close> rows of \<open>2 ^ n\<close> entries
  each, \<open>n\<close> being non-negative; and it returns one for every non-negative \<open>n\<close> whose
  \<open>4 ^ n\<close> elements numpy can allocate: 1 by 1 for \<open>n = 0\<close>, 8 by 8 for \<open>n = 3\<close>.
\<close>

theorem hamiltonian_dimension:
  assumes "get_default (n_qubits cfg) 2 = n"
  shows "(construct_hamiltonian cfg g = Inr (H, g') \<longrightarrow>
            0 \<le> n \<and> length H = 2 ^ nat n
            \<and> map length H = replicate (2 ^ nat n) (2 ^ nat n))
         \<and> (0 \<le> n \<and> array_fits (4 ^ nat n) g \<longrightarrow>
            (\<exists>H' g''. construct_hamiltonian cfg g = Inr (H', g'')
               \<and> length H' = 2 ^ nat n
               \<and> map length H' = replicate (2 ^ nat n) (2 ^ nat n)))"
proof (rule conjI)
  show "construct_hamiltonian cfg g = Inr (H, g') \<longrightarrow>
            0 \<le> n \<and> length H = 2 ^ nat n
            \<and> map length H = replicate (2 ^ nat n) (2 ^ nat n)"
  proof (rule impI)
    assume b: "construct_hamiltonian cfg g = Inr (H, g')"
    then have "H = fst (random_matrix (2 ^ nat n) (2 ^ nat n) g) \<and> 0 \<le> n"
      using assms by (auto simp: construct_hamiltonian_eq split: if_splits)
    then show "0 \<le> n \<and> length H = 2 ^ nat n
              \<and> map length H = replicate (2 ^ nat n) (2 ^ nat n)"
      by (simp add: random_matrix_shape)
  qed
next
  let ?m = "random_matrix (2 ^ nat n) (2 ^ nat n) g"
  show "0 \<le> n \<and> array_fits (4 ^ nat n) g \<longrightarrow>
            (\<exists>H' g''. construct_hamiltonian cfg g = Inr (H', g'')
               \<and> length H' = 2 ^ nat n
               \<and> map length H' = replicate (2 ^ nat n) (2 ^ nat n))"
  proof (rule impI)
    assume a: "0 \<le> n \<and> array_fits (4 ^ nat n) g"
    obtain Hm g1 where m: "?m = (Hm, g1)"
      by (cases ?m)
    from a have "construct_hamiltonian cfg g = Inr ?m"
      using assms by (simp only: construct_hamiltonian_eq array_fits_def) simp
    with m have "construct_hamiltonian cfg g = Inr (Hm, g1)" by simp
    moreover have "length Hm = 2 ^ nat n" "map length Hm = replicate (2 ^ nat n) (2 ^ nat n)"
      using random_matrix_shape [of "2 ^ nat n" "2 ^ nat n" g] m by simp_all
    ultimately show "\<exists>H' g''. construct_hamiltonian cfg g = Inr (H', g'')
               \<and> length H' = 2 ^ nat n
               \<and> map length H' = replicate (2 ^ nat n) (2 ^ nat n)"
      by blast
  qed
qed

theorem hamiltonian_dimension_witness:
  "(\<exists>H g'. construct_hamiltonian (many_qubits_config 3) demo_numpy = Inr (H, g')
      \<and> length H = 8 \<and> map length H = replicate 8 8)
   \<and> (\<exists>H g'. construct_hamiltonian (many_qubits_config 0) demo_numpy = Inr (H, g')
      \<and> length H = 1 \<and> map length H = [1])
   \<and> (\<exists>H g'. construct_hamiltonian
        \<lparr>n_qubits = None, num_parameters = None, ansatz_reps = None, config_backend = None\<rparr>
        demo_numpy = Inr (H, g')
      \<and> length H = 4 \<and> map length H = replicate 4 4)
   \<and> construct_hamiltonian (many_qubits_config 64) demo_numpy = Inl ValueError"
proof -
  have f3: "array_fits (4 ^ nat 3) demo_numpy" "array_fits (4 ^ nat 0) demo_numpy"
    "array_fits (4 ^ nat 2) demo_numpy"
    by (simp_all add: array_fits_def demo_numpy_def)
  have big: "construct_hamiltonian (many_qubits_config 64) demo_numpy = Inl ValueError"
    by (simp add: construct_hamiltonian_eq many_qubits_config_def get_default_def)
  from
    hamiltonian_dimension[of "many_qubits_config 3" 3 demo_numpy]
    hamiltonian_dimension[of "many_qubits_config 0" 0 demo_numpy]
    hamiltonian_dimension[of
      "\<lparr>n_qubits = None, num_parameters = None, ansatz_reps = None, config_backend = None\<rparr>"
      2 demo_numpy]
    f3 big
  show ?thesis
    by (simp add: many_qubits_config_def get_default_def)
qed

subsection \<open>C4: iteration indices\<close>

text \<open>
  C4: each call of the cost function appends exactly one record, whose index is the
  number of records already present; a run of the optimizer leaves the records it found
  in place; and the indices of a completed workflow's history are \<open>0, 1, 2, ...\<close> in
  order, without gaps.
\<close>

theorem iteration_index_sequence:
  "fst (snd (cost_function h a ps (hist, g))) =
      hist @ [\<lparr>iteration = length hist, params = ps,
                energy = fst (cost_function h a ps (hist, g))\<rparr>]
   \<and> (run_minimize t (cost_function h a) (hist, g) = (r, hist', g') \<longrightarrow>
        take (length hist) hist' = hist)
   \<and> (fst (execute_vqe_workflow minimize cfg mi (orch, g)) = Inr wr \<longrightarrow>
        map iteration (iterations wr) = [0..<length (iterations wr)])"
proof (intro conjI impI)
  show "fst (snd (cost_function h a ps (hist, g))) =
      hist @ [\<lparr>iteration = length hist, params = ps,
                energy = fst (cost_function h a ps (hist, g))\<rparr>]"
    by (simp add: cost_function_appends)
next
  assume "run_minimize t (cost_function h a) (hist, g) = (r, hist', g')"
  from run_history[OF this] show "take (length hist) hist' = hist" by auto
next
  assume a: "fst (execute_vqe_workflow minimize cfg mi (orch, g)) = Inr wr"
  obtain orch' g' where "execute_vqe_workflow minimize cfg mi (orch, g) = (Inr wr, orch', g')"
    using a by (cases "execute_vqe_workflow minimize cfg mi (orch, g)") auto
  then show "map iteration (iterations wr) = [0..<length (iterations wr)]"
  proof (rule execute_Inr)
    fix h' g1 x0 g2 r' hs
    assume run: "run_minimize (minimize x0 mi) (cost_function h' (construct_ansatz cfg)) ([], g2)
                  = (Inr r', hs, g')"
      and wr: "wr = \<lparr>backend = backend_type orch, problem = cfg, optimal_params = res_x r',
           minimum_energy = res_fun r', iterations = hs, success = res_success r'\<rparr>"
    from run_history[OF run] show ?thesis by (simp add: wr)
  qed
qed

theorem iteration_index_sequence_witness:
  "map iteration (iterations (projr (fst
      (execute_vqe_workflow report_last demo_config 20 demo_world)))) = [0, 1]
   \<and> take 1 (fst (snd (run_minimize (report_last [0] 20)
                 (cost_function [[0]] (construct_ansatz demo_config))
                 ([\<lparr>iteration = 0, params = [0], energy = 0\<rparr>], demo_numpy))))
       = [\<lparr>iteration = 0, params = [0], energy = 0\<rparr>]
   \<and> map iteration (fst (snd (cost_function [[0]] (construct_ansatz demo_config) [1]
                 ([\<lparr>iteration = 0, params = [0], energy = 0\<rparr>], demo_numpy)))) = [0, 1]"
proof -
  let ?s = "([\<lparr>iteration = 0, params = [0], energy = 0\<rparr>], demo_numpy)"
  let ?run = "run_minimize (report_last [0] 20)
                (cost_function [[0]] (construct_ansatz demo_config)) ?s"
  have e: "fst (execute_vqe_workflow report_last demo_config 20
                  (init_orchestrator ''qiskit_simulator'', demo_numpy))
           = Inr (projr (fst (execute_vqe_workflow report_last demo_config 20 demo_world)))"
    by (simp add: demo_simps report_last_def)
  have l: "length (iterations (projr (fst
      (execute_vqe_workflow report_last demo_config 20 demo_world)))) = 2"
    by (simp add: demo_simps report_last_def)
  have u: "[0..<2] = [0, Suc 0]" by (simp add: upt_conv_Cons)
  have p: "?run = (fst ?run, fst (snd ?run), snd (snd ?run))" by simp
  from iteration_index_sequence[of "[[0]]" "construct_ansatz demo_config" "[1]"
         "[\<lparr>iteration = 0, params = [0], energy = 0\<rparr>]" demo_numpy
         "report_last [0] 20" "fst ?run" "fst (snd ?run)" "snd (snd ?run)"
         report_last demo_config 20 "init_orchestrator ''qiskit_simulator''"
         "projr (fst (execute_vqe_workflow report_last demo_config 20 demo_world))"] e l u p
  show ?thesis by simp
qed

subsection \<open>C5: the iteration cap\<close>


subsection \<open>C6: resolving a backend identifier\<close>

text \<open>
  C6: \<open>get_backend_adapter\<close> returns an adapter for every identifier: the registered one
  for each of the three registered identifiers, and the Qiskit simulator adapter, the
  default, for any other, \<open>nonexistent\<close> included.
\<close>

theorem backend_adapter_default:
  "get_backend_adapter ''qiskit_simulator'' = Qiskit_simulator
   \<and> get_backend_adapter ''braket'' = Aws_braket
   \<and> get_backend_adapter ''cuda_q'' = Cuda_q
   \<and> (map_of adapters b = Some a \<longrightarrow> get_backend_adapter b = a)
   \<and> (b \<notin> {''qiskit_simulator'', ''braket'', ''cuda_q''} \<longrightarrow>
        get_backend_adapter b = Qiskit_simulator)"
  by (simp add: get_backend_adapter_def adapters_def get_default_def)

theorem backend_adapter_default_witness:
  "''nonexistent'' \<notin> {''qiskit_simulator'', ''braket'', ''cuda_q''}
   \<and> get_backend_adapter ''nonexistent'' = Qiskit_simulator
   \<and> call_adapter (get_backend_adapter ''nonexistent'') = ''IBM Qiskit Simulator Backend''
   \<and> map_of adapters ''braket'' = Some Aws_braket
   \<and> get_backend_adapter ''braket'' = Aws_braket"
  using backend_adapter_default[of "''nonexistent''" Qiskit_simulator]
    backend_adapter_default[of "''braket''" Aws_braket]
  by (simp add: adapters_def)

subsection \<open>C7: completion without convergence\<close>

text \<open>
  C7: once the operator and the start vector are built and the optimizer returns a
  result \<open>r\<close>, the workflow returns a full result and appends it to the orchestrator's
  log, whatever \<open>res_success r\<close> is: the flag is passed on as \<open>success\<close> and never turned
  into a failure.
\<close>

theorem completes_regardless_of_convergence:
  assumes "construct_hamiltonian cfg g = Inr (h, g1)"
    and "np_random_random (get_default (num_parameters cfg) 4) g1 = Inr (x0, g2)"
    and "run_minimize (minimize x0 mi) (cost_function h (construct_ansatz cfg)) ([], g2)
           = (Inr r, hist, g3)"
  shows "execute_vqe_workflow minimize cfg mi (orch, g) =
           (Inr \<lparr>backend = backend_type orch, problem = cfg, optimal_params = res_x r,
                 minimum_energy = res_fun r, iterations = hist, success = res_success r\<rparr>,
            orch\<lparr>execution_history := execution_history orch @
               [\<lparr>backend = backend_type orch, problem = cfg, optimal_params = res_x r,
                 minimum_energy = res_fun r, iterations = hist, success = res_success r\<rparr>]\<rparr>,
            g3)"
  using assms by (simp add: execute_vqe_workflow_def Let_def)

theorem completes_regardless_of_convergence_witness:
  "\<not> isl (fst (execute_vqe_workflow report_last demo_config 20 demo_world))
   \<and> success (projr (fst (execute_vqe_workflow report_last demo_config 20 demo_world))) = False
   \<and> execution_history (fst (snd (execute_vqe_workflow report_last demo_config 20 demo_world)))
       = [projr (fst (execute_vqe_workflow report_last demo_config 20 demo_world))]"
proof -
  let ?h = "fst (random_matrix 4 4 demo_numpy)"
  let ?g1 = "snd (random_matrix 4 4 demo_numpy)"
  let ?x0 = "fst (random_sample 4 ?g1)"
  let ?g2 = "snd (random_sample 4 ?g1)"
  let ?run = "run_minimize (report_last ?x0 20) (cost_function ?h (construct_ansatz demo_config))
                ([], ?g2)"
  have a: "construct_hamiltonian demo_config demo_numpy = Inr (?h, ?g1)"
    by (simp add: construct_hamiltonian_def demo_config_def demo_numpy_def get_default_def
          py_pow2_def)
  have b: "np_random_random (get_default (num_parameters demo_config) 4) ?g1 = Inr (?x0, ?g2)"
    by (simp add: np_random_random_def random_matrix_def demo_config_def demo_numpy_def
          get_default_def)
  have c: "?run = (Inr \<lparr>res_x = map (\<lambda>v. v + 1) ?x0, res_fun = 1 / 4, res_success = False\<rparr>,
                   fst (snd ?run), snd (snd ?run))"
    by (simp add: report_last_def cost_function_appends random_sample_def random_matrix_def
          demo_numpy_def)
  from completes_regardless_of_convergence[where minimize = report_last and mi = 20
         and orch = "init_orchestrator ''qiskit_simulator''", OF a b c]
  show ?thesis by (simp add: demo_world_def init_orchestrator_def)
qed

subsection \<open>C8: sequential executions\<close>



subsection \<open>C9: the access check\<close>



subsection \<open>C10: data quality for an unknown dataset\<close>

text \<open>
  C10: for a dataset identifier with no metadata record, \<open>record_data_quality\<close> returns
  with the governance state, metadata store and audit log, exactly as it was.
\<close>

theorem record_data_quality_unknown_dataset:
  "metadata_store g did = None \<Longrightarrow> record_data_quality did qm g = g"
  by (simp add: record_data_quality_def)

theorem record_data_quality_unknown_dataset_witness:
  "metadata_store (snd (create_dataset_metadata ''drug_discovery_001'' ''pharma_scientist_1''
       ''Virtual screening for protein targets'' ''confidential''
       ''2025-11-01T00:00:00'' ''2025-11-01T00:00:01'' init_governance))
     ''drug_discovery_002'' = None
   \<and> record_data_quality ''drug_discovery_002'' [(''consistency'', 95 / 100)]
       (snd (create_dataset_metadata ''drug_discovery_001'' ''pharma_scientist_1''
         ''Virtual screening for protein targets'' ''confidential''
         ''2025-11-01T00:00:00'' ''2025-11-01T00:00:01'' init_governance))
     = snd (create_dataset_metadata ''drug_discovery_001'' ''pharma_scientist_1''
         ''Virtual screening for protein targets'' ''confidential''
         ''2025-11-01T00:00:00'' ''2025-11-01T00:00:01'' init_governance)"
proof -
  have n: "metadata_store (snd (create_dataset_metadata ''drug_discovery_001''
       ''pharma_scientist_1'' ''Virtual screening for protein targets'' ''confidential''
       ''2025-11-01T00:00:00'' ''2025-11-01T00:00:01'' init_governance))
     ''drug_discovery_002'' = None"
    by (simp add: create_dataset_metadata_def audit_log_append_def init_governance_def Let_def)
  from record_data_quality_unknown_dataset[OF n] n show ?thesis by simp
qed

end
